theory Spec2Isabelle
  imports Complex_Main "HOL-Library.Multiset"
begin

section \<open>Values, documents and frames\<close>

text \<open>
  The backend (\<^verbatim>\<open>fastapi_backend.py\<close>) reads MongoDB documents into a pandas
  frame and aggregates its columns. Floating-point numbers are taken as exact reals;
  the one special value the read path can meet is pandas' marker of a missing cell,
  \<open>NaN\<close>, which Python's comparisons and arithmetic treat in their own way.
\<close>

datatype pyfloat = Fl real | NaN

text \<open>
  A document, restricted to the keys the backend reads. \<open>None\<close> says that the
  document has no such key; \<^verbatim>\<open>pd.DataFrame(data)\<close> then holds \<open>NaN\<close> in that cell,
  and the column exists as soon as one document of \<open>data\<close> has the key.
\<close>

record row =
  Health_score :: "real option"
  Uptime :: "real option"
  Air_temperature :: "real option"
  Process_temperature :: "real option"
  Rotational_speed :: "real option"
  Torque :: "real option"
  Tool_wear :: "real option"
  Vibration :: "real option"
  Type :: "string option"
  Failure :: "int option"

type_synonym dataframe = "row list"

text \<open>
  The database: the collection \<^verbatim>\<open>lathe_m{i}\<close>, when it exists, with its documents in
  the order \<^verbatim>\<open>find().sort("timestamp", -1)\<close> yields them, so that \<^verbatim>\<open>limit(n)\<close> is
  \<open>take n\<close>.
\<close>

type_synonym database = "int \<rightharpoonup> row list"

datatype detail = Lathe_not_found int | No_data_found int

datatype error =
    HTTPException nat detail
  | KeyError string
  | ValueError
  | ZeroDivisionError

subsection \<open>pandas and Python primitives\<close>

text \<open>\<^verbatim>\<open>key in df.columns\<close>\<close>

definition in_columns :: "(row \<Rightarrow> 'a option) \<Rightarrow> dataframe \<Rightarrow> bool" where
  "in_columns f df = list_ex (\<lambda>r. f r \<noteq> None) df"

text \<open>\<^verbatim>\<open>df[key]\<close>: the cells of a column, or \<^verbatim>\<open>KeyError\<close>.\<close>

definition column :: "string \<Rightarrow> (row \<Rightarrow> 'a option) \<Rightarrow> dataframe \<Rightarrow> error + 'a option list" where
  "column key f df = (if in_columns f df then Inr (map f df) else Inl (KeyError key))"

text \<open>The cells that hold a value (pandas skips the others: \<^verbatim>\<open>skipna=True\<close>).\<close>

fun present :: "'a option list \<Rightarrow> 'a list" where
  "present [] = []"
| "present (None # cs) = present cs"
| "present (Some x # cs) = x # present cs"

text \<open>\<^verbatim>\<open>Series.mean()\<close>: the mean of the values present, \<open>NaN\<close> when there is none.\<close>

definition pd_mean :: "real option list \<Rightarrow> pyfloat" where
  "pd_mean cs = (case present cs of [] \<Rightarrow> NaN | x # xs \<Rightarrow> Fl (sum_list (x # xs) / real (length (x # xs))))"

text \<open>\<^verbatim>\<open>Series.sum()\<close> of an integer column.\<close>

definition pd_sum :: "int option list \<Rightarrow> int" where
  "pd_sum cs = sum_list (present cs)"

text \<open>\<^verbatim>\<open>Series.tolist()\<close>\<close>

fun cell :: "real option \<Rightarrow> pyfloat" where
  "cell None = NaN"
| "cell (Some x) = Fl x"

definition tolist :: "real option list \<Rightarrow> pyfloat list" where
  "tolist cs = map cell cs"

text \<open>\<^verbatim>\<open>Series.value_counts().to_dict()\<close>: missing cells are not counted.\<close>

definition value_counts :: "'a option list \<Rightarrow> ('a \<rightharpoonup> nat)" where
  "value_counts cs = (\<lambda>k. let c = count_list (present cs) k in if c = 0 then None else Some c)"

text \<open>Comparisons with \<open>NaN\<close> are false.\<close>

fun py_ge :: "pyfloat \<Rightarrow> real \<Rightarrow> bool" where
  "py_ge (Fl x) y = (y \<le> x)"
| "py_ge NaN y = False"

fun py_lt :: "pyfloat \<Rightarrow> pyfloat \<Rightarrow> bool" where
  "py_lt (Fl x) (Fl y) = (x < y)"
| "py_lt _ _ = False"

fun py_gt :: "pyfloat \<Rightarrow> pyfloat \<Rightarrow> bool" where
  "py_gt (Fl x) (Fl y) = (y < x)"
| "py_gt _ _ = False"

fun py_add :: "pyfloat \<Rightarrow> pyfloat \<Rightarrow> pyfloat" where
  "py_add (Fl x) (Fl y) = Fl (x + y)"
| "py_add _ _ = NaN"

fun py_mul :: "pyfloat \<Rightarrow> real \<Rightarrow> pyfloat" where
  "py_mul (Fl x) y = Fl (x * y)"
| "py_mul NaN y = NaN"

text \<open>
  \<^verbatim>\<open>round(x, n)\<close>: to \<open>n\<close> decimals, a tie going to the even digit; \<open>NaN\<close> stays \<open>NaN\<close>.
\<close>

definition round_half_even :: "real \<Rightarrow> int" where
  "round_half_even x =
     (let f = \<lfloor>x\<rfloor>; d = x - of_int f
      in if d < 1 / 2 then f else if 1 / 2 < d then f + 1 else if even f then f else f + 1)"

fun py_round :: "pyfloat \<Rightarrow> nat \<Rightarrow> pyfloat" where
  "py_round (Fl x) n = Fl (of_int (round_half_even (x * 10 ^ n)) / 10 ^ n)"
| "py_round NaN n = NaN"

text \<open>
  \<^verbatim>\<open>min(values)\<close> and \<^verbatim>\<open>max(values)\<close>: the first item is kept until a later one
  compares strictly below (above) it; an empty list raises \<^verbatim>\<open>ValueError\<close>.
\<close>

fun py_min :: "pyfloat list \<Rightarrow> error + pyfloat" where
  "py_min [] = Inl ValueError"
| "py_min (v # vs) = Inr (foldl (\<lambda>m x. if py_lt x m then x else m) v vs)"

fun py_max :: "pyfloat list \<Rightarrow> error + pyfloat" where
  "py_max [] = Inl ValueError"
| "py_max (v # vs) = Inr (foldl (\<lambda>m x. if py_gt x m then x else m) v vs)"

text \<open>\<^verbatim>\<open>sum(values) / len(values)\<close>\<close>

definition py_sum :: "pyfloat list \<Rightarrow> pyfloat" where
  "py_sum vs = foldl py_add (Fl 0) vs"

definition py_avg :: "pyfloat list \<Rightarrow> error + pyfloat" where
  "py_avg vs = (if length vs = 0 then Inl ZeroDivisionError
                else Inr (case py_sum vs of Fl s \<Rightarrow> Fl (s / real (length vs)) | NaN \<Rightarrow> NaN))"

text \<open>An exception ends the request: the rest of the function is not run.\<close>

definition and_then :: "error + 'a \<Rightarrow> ('a \<Rightarrow> error + 'b) \<Rightarrow> error + 'b" where
  "and_then m f = (case m of Inl e \<Rightarrow> Inl e | Inr x \<Rightarrow> f x)"

text \<open>\<^verbatim>\<open>df[key].mean()\<close>\<close>

definition col_mean :: "string \<Rightarrow> (row \<Rightarrow> real option) \<Rightarrow> dataframe \<Rightarrow> error + pyfloat" where
  "col_mean key f df = and_then (column key f df) (\<lambda>cs. Inr (pd_mean cs))"

section \<open>The status of a mean health score\<close>

text \<open>
  The \<^verbatim>\<open>if avg_health >= 80 ... elif avg_health >= 60 ... else\<close> chain that
  \<^verbatim>\<open>get_all_lathes\<close> and \<^verbatim>\<open>get_lathe_details\<close> both contain.
\<close>

definition status_of :: "pyfloat \<Rightarrow> string" where
  "status_of avg_health =
     (if py_ge avg_health 80 then ''Operational''
      else if py_ge avg_health 60 then ''Warning''
      else ''Failure'')"

text \<open>
  \<^verbatim>\<open>df["Uptime"].mean() if "Uptime" in df.columns else 0\<close>
\<close>

definition avg_uptime_of :: "dataframe \<Rightarrow> pyfloat" where
  "avg_uptime_of df = (if in_columns Uptime df then pd_mean (map Uptime df) else Fl 0)"

section \<open>The summary of all lathes\<close>

text \<open>The name \<^verbatim>\<open>f"Lathe M{i}"\<close> is kept as its prefix and its number.\<close>

type_synonym lathe_name = "string \<times> int"

record LatheSummary =
  lathe_id :: int
  name :: lathe_name
  health_score :: pyfloat
  uptime :: pyfloat
  status :: string

text \<open>The body of the loop of \<^verbatim>\<open>get_all_lathes\<close> for a non-empty \<open>data\<close>.\<close>

definition lathe_summary :: "int \<Rightarrow> dataframe \<Rightarrow> error + LatheSummary" where
  "lathe_summary i df =
     and_then (col_mean ''Health score'' Health_score df) (\<lambda>avg_health.
       let avg_uptime = avg_uptime_of df;
           status = status_of avg_health
       in Inr \<lparr>lathe_id = i, name = (''Lathe M'', i),
                health_score = py_round avg_health 1,
                uptime = py_round avg_uptime 1,
                status = status\<rparr>)"

fun get_all_lathes_loop :: "database \<Rightarrow> int list \<Rightarrow> LatheSummary list \<Rightarrow> error + LatheSummary list" where
  "get_all_lathes_loop db [] lathes = Inr lathes"
| "get_all_lathes_loop db (i # rest) lathes =
     (case db i of
        None \<Rightarrow> get_all_lathes_loop db rest lathes
      | Some collection \<Rightarrow>
          (let data = take 50 collection
           in if data = [] then get_all_lathes_loop db rest lathes
              else (case lathe_summary i data of
                      Inl e \<Rightarrow> Inl e
                    | Inr s \<Rightarrow> get_all_lathes_loop db rest (lathes @ [s]))))"

definition get_all_lathes :: "database \<Rightarrow> error + LatheSummary list" where
  "get_all_lathes db = get_all_lathes_loop db [1, 2, 3, 4] []"

section \<open>The details of one lathe\<close>

text \<open>
  \<^verbatim>\<open>LatheDetails\<close> repeats the five fields of \<^verbatim>\<open>LatheSummary\<close> and adds its own;
  \<open>vibration\<close> is \<^verbatim>\<open>Optional[float]\<close>, with Python's \<^verbatim>\<open>None\<close> as \<open>None\<close>.
\<close>

record LatheDetails = LatheSummary +
  air_temperature :: pyfloat
  process_temperature :: pyfloat
  rotational_speed :: pyfloat
  torque :: pyfloat
  tool_wear :: pyfloat
  vibration :: "pyfloat option"
  failure_count :: int
  product_types :: "string \<rightharpoonup> nat"

text \<open>\<^verbatim>\<open>get_lathe_details\<close> from \<^verbatim>\<open>df = pd.DataFrame(data)\<close> on.\<close>

definition lathe_details :: "int \<Rightarrow> dataframe \<Rightarrow> error + LatheDetails" where
  "lathe_details i df =
     and_then (col_mean ''Health score'' Health_score df) (\<lambda>avg_health.
       let avg_uptime = avg_uptime_of df;
           status = status_of avg_health;
           product_types = (if in_columns Type df then value_counts (map Type df) else Map.empty);
           failure_count = (if in_columns Failure df then pd_sum (map Failure df) else 0)
       in
       and_then (col_mean ''Air temperature'' Air_temperature df) (\<lambda>air.
       and_then (col_mean ''Process temperature'' Process_temperature df) (\<lambda>process.
       and_then (col_mean ''Rotational speed'' Rotational_speed df) (\<lambda>speed.
       and_then (col_mean ''Torque'' Torque df) (\<lambda>torq.
       and_then (col_mean ''Tool wear'' Tool_wear df) (\<lambda>wear.
         Inr \<lparr>lathe_id = i, name = (''Lathe M'', i),
              health_score = py_round avg_health 1,
              uptime = py_round avg_uptime 1,
              status = status,
              air_temperature = py_round air 1,
              process_temperature = py_round process 1,
              rotational_speed = py_round speed 1,
              torque = py_round torq 1,
              tool_wear = py_round wear 1,
              vibration = (if in_columns Vibration df
                           then Some (py_round (pd_mean (map Vibration df)) 1) else None),
              failure_count = failure_count,
              product_types = product_types\<rparr>))))))"

definition get_lathe_details :: "database \<Rightarrow> int \<Rightarrow> error + LatheDetails" where
  "get_lathe_details db i =
     (case db i of
        None \<Rightarrow> Inl (HTTPException 404 (Lathe_not_found i))
      | Some collection \<Rightarrow>
          (let data = take 100 collection
           in if data = [] then Inl (HTTPException 404 (No_data_found i))
              else lathe_details i data))"

section \<open>The sensor data of one lathe\<close>

text \<open>
  The returned dictionaries keep their keys in insertion order, as lists of pairs.
\<close>

record SensorData =
  sd_lathe_id :: int
  sd_name :: lathe_name
  sensor_data :: "(string \<times> pyfloat list) list"
  stats :: "(string \<times> (string \<times> pyfloat) list) list"

text \<open>\<^verbatim>\<open>df[key].tolist()\<close>\<close>

definition col_list :: "string \<Rightarrow> (row \<Rightarrow> real option) \<Rightarrow> dataframe \<Rightarrow> error + pyfloat list" where
  "col_list key f df = and_then (column key f df) (\<lambda>cs. Inr (tolist cs))"

text \<open>The dictionary \<^verbatim>\<open>sensor_data\<close>, with \<^verbatim>\<open>"vibration"\<close> added when the column exists.\<close>

definition sensor_data_of :: "dataframe \<Rightarrow> error + (string \<times> pyfloat list) list" where
  "sensor_data_of df =
     and_then (col_list ''Air temperature'' Air_temperature df) (\<lambda>air.
     and_then (col_list ''Process temperature'' Process_temperature df) (\<lambda>process.
     and_then (col_list ''Rotational speed'' Rotational_speed df) (\<lambda>speed.
     and_then (col_list ''Torque'' Torque df) (\<lambda>torq.
     and_then (col_list ''Tool wear'' Tool_wear df) (\<lambda>wear.
       let sensor_data = [(''air_temperature'', air), (''process_temperature'', process),
                          (''rotational_speed'', speed), (''torque'', torq), (''tool_wear'', wear)]
       in Inr (if in_columns Vibration df
               then sensor_data @ [(''vibration'', tolist (map Vibration df))]
               else sensor_data))))))"

text \<open>One entry of \<^verbatim>\<open>stats\<close>: min, max and avg of a list, each rounded to 2 decimals.\<close>

definition stats_entry :: "pyfloat list \<Rightarrow> error + (string \<times> pyfloat) list" where
  "stats_entry vs =
     and_then (py_min vs) (\<lambda>mn.
     and_then (py_max vs) (\<lambda>mx.
     and_then (py_avg vs) (\<lambda>av.
       Inr [(''min'', py_round mn 2), (''max'', py_round mx 2), (''avg'', py_round av 2)])))"

fun stats_loop :: "(string \<times> pyfloat list) list \<Rightarrow> error + (string \<times> (string \<times> pyfloat) list) list" where
  "stats_loop [] = Inr []"
| "stats_loop ((key, vs) # rest) =
     and_then (stats_entry vs) (\<lambda>s.
     and_then (stats_loop rest) (\<lambda>ss. Inr ((key, s) # ss)))"

definition sensor_stats :: "int \<Rightarrow> dataframe \<Rightarrow> error + SensorData" where
  "sensor_stats i df =
     and_then (sensor_data_of df) (\<lambda>sd.
     and_then (stats_loop sd) (\<lambda>st.
       Inr \<lparr>sd_lathe_id = i, sd_name = (''Lathe M'', i), sensor_data = sd, stats = st\<rparr>))"

definition get_lathe_sensor_data :: "database \<Rightarrow> int \<Rightarrow> error + SensorData" where
  "get_lathe_sensor_data db i =
     (case db i of
        None \<Rightarrow> Inl (HTTPException 404 (Lathe_not_found i))
      | Some collection \<Rightarrow>
          (let data = take 100 collection
           in if data = [] then Inl (HTTPException 404 (No_data_found i))
              else sensor_stats i data))"

section \<open>The product analysis of one lathe\<close>

record quality =
  count :: nat
  failure_rate :: pyfloat
  avg_health_score :: pyfloat

text \<open>
  A product type met in the column \<^verbatim>\<open>Type\<close> is a string, or the \<open>NaN\<close> of a document
  without the key (\<open>None\<close>): \<^verbatim>\<open>unique()\<close> lists it too, once.
\<close>

record ProductAnalysis =
  pa_lathe_id :: int
  pa_name :: lathe_name
  pa_product_types :: "string \<rightharpoonup> nat"
  product_quality :: "(string option \<times> quality) list"
  params_by_type :: "(string option \<times> (string \<times> pyfloat) list) list"

text \<open>\<^verbatim>\<open>Series.unique()\<close>: the distinct cells, in the order they are first met.\<close>

definition pd_unique :: "'a list \<Rightarrow> 'a list" where
  "pd_unique cs = foldl (\<lambda>seen c. if c \<in> set seen then seen else seen @ [c]) [] cs"

text \<open>
  \<^verbatim>\<open>df[df["Type"] == product_type]\<close>: \<open>NaN\<close> equals nothing, itself included, so
  the \<open>NaN\<close> type selects no row.
\<close>

fun select_type :: "dataframe \<Rightarrow> string option \<Rightarrow> dataframe" where
  "select_type df None = []"
| "select_type df (Some t) = filter (\<lambda>r. Type r = Some t) df"

definition quality_entry :: "dataframe \<Rightarrow> dataframe \<Rightarrow> quality" where
  "quality_entry df type_df =
     (let failure_rate = py_mul (pd_mean (map (\<lambda>r. map_option real_of_int (Failure r)) type_df)) 100
      in \<lparr>count = length type_df,
          failure_rate = py_round failure_rate 2,
          avg_health_score = (if in_columns Health_score df
                              then py_round (pd_mean (map Health_score type_df)) 2 else Fl 0)\<rparr>)"

definition product_quality_of :: "dataframe \<Rightarrow> (string option \<times> quality) list" where
  "product_quality_of df =
     (if in_columns Type df \<and> in_columns Failure df
      then map (\<lambda>product_type. (product_type, quality_entry df (select_type df product_type)))
             (pd_unique (map Type df))
      else [])"

text \<open>\<^verbatim>\<open>type_df[key].mean()\<close>: \<open>type_df\<close> has the columns of \<open>df\<close>.\<close>

definition sub_mean :: "string \<Rightarrow> (row \<Rightarrow> real option) \<Rightarrow> dataframe \<Rightarrow> dataframe \<Rightarrow> error + pyfloat" where
  "sub_mean key f df type_df =
     (if in_columns f df then Inr (pd_mean (map f type_df)) else Inl (KeyError key))"

definition params_entry :: "dataframe \<Rightarrow> dataframe \<Rightarrow> error + (string \<times> pyfloat) list" where
  "params_entry df type_df =
     and_then (sub_mean ''Air temperature'' Air_temperature df type_df) (\<lambda>air.
     and_then (sub_mean ''Process temperature'' Process_temperature df type_df) (\<lambda>process.
     and_then (sub_mean ''Rotational speed'' Rotational_speed df type_df) (\<lambda>speed.
     and_then (sub_mean ''Torque'' Torque df type_df) (\<lambda>torq.
     and_then (sub_mean ''Tool wear'' Tool_wear df type_df) (\<lambda>wear.
       Inr [(''air_temperature'', py_round air 2), (''process_temperature'', py_round process 2),
            (''rotational_speed'', py_round speed 2), (''torque'', py_round torq 2),
            (''tool_wear'', py_round wear 2)])))))"

fun params_loop :: "dataframe \<Rightarrow> string option list \<Rightarrow> error + (string option \<times> (string \<times> pyfloat) list) list" where
  "params_loop df [] = Inr []"
| "params_loop df (product_type # rest) =
     and_then (params_entry df (select_type df product_type)) (\<lambda>p.
     and_then (params_loop df rest) (\<lambda>ps. Inr ((product_type, p) # ps)))"

definition params_by_type_of :: "dataframe \<Rightarrow> error + (string option \<times> (string \<times> pyfloat) list) list" where
  "params_by_type_of df =
     (if in_columns Type df then params_loop df (pd_unique (map Type df)) else Inr [])"

definition product_analysis :: "int \<Rightarrow> dataframe \<Rightarrow> error + ProductAnalysis" where
  "product_analysis i df =
     (let product_types = (if in_columns Type df then value_counts (map Type df) else Map.empty);
          product_quality = product_quality_of df
      in and_then (params_by_type_of df) (\<lambda>params_by_type.
           Inr \<lparr>pa_lathe_id = i, pa_name = (''Lathe M'', i),
                pa_product_types = product_types,
                product_quality = product_quality,
                params_by_type = params_by_type\<rparr>))"

text \<open>\<^verbatim>\<open>collection.find()\<close> reads every document of the collection.\<close>

definition get_lathe_product_analysis :: "database \<Rightarrow> int \<Rightarrow> error + ProductAnalysis" where
  "get_lathe_product_analysis db i =
     (case db i of
        None \<Rightarrow> Inl (HTTPException 404 (Lathe_not_found i))
      | Some collection \<Rightarrow>
          (let data = collection
           in if data = [] then Inl (HTTPException 404 (No_data_found i))
              else product_analysis i data))"

section \<open>The health score of the data generator\<close>

text \<open>
  \<^verbatim>\<open>enrich\<close> of \<^verbatim>\<open>mongodb_data_generator.py\<close> computes the column
  \<^verbatim>\<open>Health score\<close> row by row from four feature columns, which the generator's frames
  always hold, and from the dictionary \<^verbatim>\<open>nominal\<close> of the base data.
\<close>

record features =
  d_Air_temperature :: real
  d_Rotational_speed :: real
  d_Torque :: real
  d_Tool_wear :: real

record nominal =
  nominal_speed :: real
  nominal_torque :: real
  nominal_wear_max :: real
  nominal_temp_shift :: real

definition weights_temp :: real where "weights_temp = 0.2"
definition weights_speed :: real where "weights_speed = 0.25"
definition weights_torque :: real where "weights_torque = 0.25"
definition weights_wear :: real where "weights_wear = 0.3"

text \<open>\<^verbatim>\<open>Series.clip(lower, upper)\<close>\<close>

definition clip :: "real \<Rightarrow> real \<Rightarrow> real \<Rightarrow> real" where
  "clip lower upper x = (if x < lower then lower else if upper < x then upper else x)"

text \<open>
  A division by a nominal value. By zero numpy gives \<open>inf\<close> or \<open>NaN\<close>, by the signs
  of the floating-point zeros, which the reals do not have: the model gives \<open>None\<close>
  there and says nothing of the score.
\<close>

definition np_div :: "real \<Rightarrow> real \<Rightarrow> real option" where
  "np_div x y = (if y = 0 then None else Some (x / y))"

definition h_temp :: "nominal \<Rightarrow> features \<Rightarrow> real option" where
  "h_temp nom d =
     map_option (\<lambda>q. 1 - clip 0 1 q) (np_div \<bar>d_Air_temperature d - 300\<bar> (nominal_temp_shift nom))"

definition h_speed :: "nominal \<Rightarrow> features \<Rightarrow> real option" where
  "h_speed nom d = map_option (clip 0 1) (np_div (d_Rotational_speed d) (nominal_speed nom))"

definition h_torque :: "nominal \<Rightarrow> features \<Rightarrow> real option" where
  "h_torque nom d = map_option (clip 0 1) (np_div (d_Torque d) (nominal_torque nom))"

definition h_wear :: "nominal \<Rightarrow> features \<Rightarrow> real option" where
  "h_wear nom d = map_option (\<lambda>q. clip 0 1 (1 - q)) (np_div (d_Tool_wear d) (nominal_wear_max nom))"

definition health_score_of :: "nominal \<Rightarrow> features \<Rightarrow> real option" where
  "health_score_of nom d =
     (case (h_temp nom d, h_speed nom d, h_torque nom d, h_wear nom d) of
        (Some ht, Some hs, Some hq, Some hw) \<Rightarrow>
          Some (100 * (weights_temp * ht + weights_speed * hs + weights_torque * hq + weights_wear * hw))
      | _ \<Rightarrow> None)"

text \<open>
  The dictionary \<^verbatim>\<open>nominal\<close> as \<^verbatim>\<open>generate_data\<close> builds it from the base frame's
  mean speed, mean torque and greatest tool wear; \<^verbatim>\<open>temp_shift\<close> is the constant 10.
\<close>

definition make_nominal :: "real \<Rightarrow> real \<Rightarrow> real \<Rightarrow> nominal" where
  "make_nominal speed_mean torque_mean wear_max =
     \<lparr>nominal_speed = speed_mean, nominal_torque = torque_mean,
      nominal_wear_max = wear_max, nominal_temp_shift = 10\<rparr>"

text \<open>The column \<^verbatim>\<open>d['Health score']\<close> of \<^verbatim>\<open>enrich\<close>.\<close>

definition enrich_health_score :: "nominal \<Rightarrow> features list \<Rightarrow> real option list" where
  "enrich_health_score nom df = map (health_score_of nom) df"

section \<open>Vocabulary of the properties\<close>

text \<open>
  The documents an operation fetches for lathe \<open>i\<close> with \<^verbatim>\<open>limit(n)\<close>; none when
  the collection does not exist.
\<close>

definition window_of :: "database \<Rightarrow> int \<Rightarrow> nat \<Rightarrow> dataframe" where
  "window_of db i n = (case db i of None \<Rightarrow> [] | Some collection \<Rightarrow> take n collection)"

text \<open>The columns the operations read without asking whether they exist.\<close>

definition sensor_columns :: "dataframe \<Rightarrow> bool" where
  "sensor_columns df \<longleftrightarrow>
     in_columns Air_temperature df \<and> in_columns Process_temperature df \<and>
     in_columns Rotational_speed df \<and> in_columns Torque df \<and> in_columns Tool_wear df"

definition mandatory_columns :: "dataframe \<Rightarrow> bool" where
  "mandatory_columns df \<longleftrightarrow> in_columns Health_score df \<and> sensor_columns df"







text \<open>A column that every record of the window fills.\<close>

definition full_column :: "(row \<Rightarrow> 'a option) \<Rightarrow> dataframe \<Rightarrow> bool" where
  "full_column f df \<longleftrightarrow> list_all (\<lambda>r. f r \<noteq> None) df"

text \<open>Sample data: a document without vibration, and a small database.\<close>

definition example_row :: row where
  "example_row =
     \<lparr>Health_score = Some 79.96, Uptime = Some 90, Air_temperature = Some 300,
      Process_temperature = Some 310, Rotational_speed = Some 1500, Torque = Some 40,
      Tool_wear = Some 100, Vibration = None, Type = Some ''L'', Failure = Some 0\<rparr>"

definition example_db :: database where
  "example_db = [1 \<mapsto> [example_row], 2 \<mapsto> [], 7 \<mapsto> [example_row]]"



section \<open>Properties\<close>

subsection \<open>Columns and means\<close>

lemma in_columns_iff: "in_columns f df \<longleftrightarrow> (\<exists>r\<in>set df. f r \<noteq> None)"
  by (simp add: in_columns_def list_ex_iff)

lemma in_columns_Nil: "\<not> in_columns f []"
  by (simp add: in_columns_def)

lemma in_columns_nonempty: "in_columns f df \<Longrightarrow> df \<noteq> []"
  by (auto simp: in_columns_Nil)




lemma and_then_Inr [simp]: "and_then (Inr x) f = f x"
  by (simp add: and_then_def)

lemma and_then_Inl [simp]: "and_then (Inl e) f = Inl e"
  by (simp add: and_then_def)

lemma col_mean_Inr: "in_columns f df \<Longrightarrow> col_mean key f df = Inr (pd_mean (map f df))"
  by (simp add: col_mean_def column_def)

lemma col_mean_Inl: "\<not> in_columns f df \<Longrightarrow> col_mean key f df = Inl (KeyError key)"
  by (simp add: col_mean_def column_def)

lemma col_list_Inr: "in_columns f df \<Longrightarrow> col_list key f df = Inr (tolist (map f df))"
  by (simp add: col_list_def column_def)

lemma col_list_Inl: "\<not> in_columns f df \<Longrightarrow> col_list key f df = Inl (KeyError key)"
  by (simp add: col_list_def column_def)

lemma example_row_columns:
  "mandatory_columns [example_row]" "\<not> in_columns Vibration [example_row]"
  "in_columns Uptime [example_row]"
  by (simp_all add: mandatory_columns_def sensor_columns_def in_columns_def example_row_def
      del: not_None_eq)

lemma window_of_example_db:
  "window_of example_db 1 n = take n [example_row]" "window_of example_db 2 n = []"
  "window_of example_db 3 n = []" "window_of example_db 4 n = []"
  by (simp_all add: window_of_def example_db_def)

subsection \<open>The status thresholds\<close>

text \<open>
  Claim C1. For every real mean health score \<open>h\<close>, the status is Operational exactly
  when \<open>h \<ge> 80\<close>, Warning exactly when \<open>60 \<le> h < 80\<close>, and Failure exactly when
  \<open>h < 60\<close>; the boundaries 80 and 60 fall into the higher bucket, 79.9 and 59.9 into
  the lower one.
\<close>

theorem status_of_thresholds:
  "(status_of (Fl h) = ''Operational'' \<longleftrightarrow> 80 \<le> h) \<and>
   (status_of (Fl h) = ''Warning'' \<longleftrightarrow> 60 \<le> h \<and> h < 80) \<and>
   (status_of (Fl h) = ''Failure'' \<longleftrightarrow> h < 60) \<and>
   status_of (Fl 80) = ''Operational'' \<and> status_of (Fl 60) = ''Warning'' \<and>
   status_of (Fl 79.9) = ''Warning'' \<and> status_of (Fl 59.9) = ''Failure''"
  by (auto simp: status_of_def)

subsection \<open>The summary of all lathes\<close>

lemma lathe_summary_Inr:
  "in_columns Health_score df \<Longrightarrow>
     lathe_summary i df =
       Inr \<lparr>lathe_id = i, name = (''Lathe M'', i),
            health_score = py_round (pd_mean (map Health_score df)) 1,
            uptime = py_round (avg_uptime_of df) 1,
            status = status_of (pd_mean (map Health_score df))\<rparr>"
  by (simp add: lathe_summary_def col_mean_Inr Let_def)

lemma lathe_summary_Inl:
  "\<not> in_columns Health_score df \<Longrightarrow> lathe_summary i df = Inl (KeyError ''Health score'')"
  by (simp add: lathe_summary_def col_mean_Inl)

lemma lathe_summary_no_HTTPException: "lathe_summary i df \<noteq> Inl (HTTPException c d)"
  by (cases "in_columns Health_score df") (simp_all add: lathe_summary_Inr lathe_summary_Inl)

lemma loop_no_HTTPException:
  "get_all_lathes_loop db ids lathes \<noteq> Inl (HTTPException c d)"
proof (induction ids arbitrary: lathes)
  case Nil
  show ?case by simp
next
  case (Cons i rest)
  show ?case
  proof (cases "db i")
    case None
    with Cons show ?thesis by simp
  next
    case (Some collection)
    show ?thesis
    proof (cases "take 50 collection = []")
      case True
      with Some Cons show ?thesis by simp
    next
      case False
      show ?thesis
      proof (cases "lathe_summary i (take 50 collection)")
        case (Inl e)
        with lathe_summary_no_HTTPException [of i "take 50 collection" c d]
        have "e \<noteq> HTTPException c d" by auto
        with Some False Inl show ?thesis by (simp add: Let_def)
      next
        case (Inr s)
        with Some False Cons show ?thesis by (simp add: Let_def)
      qed
    qed
  qed
qed

lemma loop_closed:
  assumes "\<forall>i\<in>set ids. window_of db i 50 \<noteq> [] \<longrightarrow> in_columns Health_score (window_of db i 50)"
  shows "get_all_lathes_loop db ids lathes =
           Inr (lathes @
                map (\<lambda>i. \<lparr>lathe_id = i, name = (''Lathe M'', i),
                          health_score = py_round (pd_mean (map Health_score (window_of db i 50))) 1,
                          uptime = py_round (avg_uptime_of (window_of db i 50)) 1,
                          status = status_of (pd_mean (map Health_score (window_of db i 50)))\<rparr>)
                  (filter (\<lambda>i. window_of db i 50 \<noteq> []) ids))"
  using assms
proof (induction ids arbitrary: lathes)
  case Nil
  show ?case by simp
next
  case (Cons i rest)
  then have IH: "\<And>acc. get_all_lathes_loop db rest acc =
           Inr (acc @
                map (\<lambda>i. \<lparr>lathe_id = i, name = (''Lathe M'', i),
                          health_score = py_round (pd_mean (map Health_score (window_of db i 50))) 1,
                          uptime = py_round (avg_uptime_of (window_of db i 50)) 1,
                          status = status_of (pd_mean (map Health_score (window_of db i 50)))\<rparr>)
                  (filter (\<lambda>i. window_of db i 50 \<noteq> []) rest))"
    by simp
  show ?case
  proof (cases "db i")
    case None
    then show ?thesis by (simp add: IH window_of_def)
  next
    case (Some collection)
    show ?thesis
    proof (cases "take 50 collection = []")
      case True
      with Some show ?thesis by (simp add: IH window_of_def)
    next
      case False
      with Some have w: "window_of db i 50 = take 50 collection" "window_of db i 50 \<noteq> []"
        by (simp_all add: window_of_def)
      with Cons.prems have "in_columns Health_score (take 50 collection)" by simp
      with Some False w show ?thesis
        by (simp add: IH lathe_summary_Inr Let_def)
    qed
  qed
qed

text \<open>
  Claim C10. The summary of all lathes never answers with a not-found error. It looks at
  the lathes 1 to 4 only, and leaves out a lathe whose collection is missing or whose
  50 most recent documents are none: when every window it reads has a health score, it
  returns exactly the lathes with a non-empty window, in order; with no collection at
  all it returns the empty list.
\<close>

theorem get_all_lathes_omits_silently:
  "(\<forall>c d. get_all_lathes db \<noteq> Inl (HTTPException c d)) \<and>
   ((\<forall>i\<in>set [1, 2, 3, 4]. window_of db i 50 \<noteq> [] \<longrightarrow> in_columns Health_score (window_of db i 50)) \<longrightarrow>
      (\<exists>lathes. get_all_lathes db = Inr lathes \<and>
         map lathe_id lathes = filter (\<lambda>i. window_of db i 50 \<noteq> []) [1, 2, 3, 4])) \<and>
   get_all_lathes Map.empty = Inr []"
proof (intro conjI allI impI)
  fix c d
  show "get_all_lathes db \<noteq> Inl (HTTPException c d)"
    unfolding get_all_lathes_def by (rule loop_no_HTTPException)
next
  assume "\<forall>i\<in>set [1, 2, 3, 4]. window_of db i 50 \<noteq> [] \<longrightarrow> in_columns Health_score (window_of db i 50)"
  from loop_closed [OF this, of "[]"]
  show "\<exists>lathes. get_all_lathes db = Inr lathes \<and>
         map lathe_id lathes = filter (\<lambda>i. window_of db i 50 \<noteq> []) [1, 2, 3, 4]"
    unfolding get_all_lathes_def by (simp add: comp_def)
next
  show "get_all_lathes Map.empty = Inr []"
    by (simp add: get_all_lathes_def)
qed

theorem get_all_lathes_omits_silently_witness:
  "get_all_lathes example_db \<noteq> Inl (HTTPException 404 (No_data_found 2)) \<and>
   (\<exists>lathes. get_all_lathes example_db = Inr lathes \<and> map lathe_id lathes = [1])"
  using get_all_lathes_omits_silently [of example_db]
  by (simp add: window_of_example_db example_row_columns [unfolded mandatory_columns_def])

subsection \<open>Empty windows\<close>

lemma get_lathe_details_window:
  "window_of db i 100 \<noteq> [] \<Longrightarrow> get_lathe_details db i = lathe_details i (window_of db i 100)"
  by (cases "db i") (simp_all add: get_lathe_details_def window_of_def Let_def)

lemma get_lathe_sensor_data_window:
  "window_of db i 100 \<noteq> [] \<Longrightarrow> get_lathe_sensor_data db i = sensor_stats i (window_of db i 100)"
  by (cases "db i") (simp_all add: get_lathe_sensor_data_def window_of_def Let_def)

text \<open>
  Claim C3. For every machine id, when the window fetched for it is empty, the detail
  and the sensor-data operations answer with the not-found error (404) and return no
  summary, so none with fields of zero.
\<close>

theorem empty_window_not_found:
  assumes "window_of db i 100 = []"
  shows "get_lathe_details db i =
           Inl (HTTPException 404 (if db i = None then Lathe_not_found i else No_data_found i)) \<and>
         get_lathe_sensor_data db i =
           Inl (HTTPException 404 (if db i = None then Lathe_not_found i else No_data_found i))"
  using assms
  by (cases "db i") (simp_all add: get_lathe_details_def get_lathe_sensor_data_def window_of_def)

theorem empty_window_not_found_witness:
  "window_of example_db 2 100 = [] \<and>
   get_lathe_details example_db 2 = Inl (HTTPException 404 (No_data_found 2)) \<and>
   get_lathe_sensor_data example_db 2 = Inl (HTTPException 404 (No_data_found 2))"
  using empty_window_not_found [of example_db 2]
  by (simp add: window_of_example_db) (simp add: example_db_def)

text \<open>
  Claim C2, as the code has it. For a machine whose collection exists and holds no
  document, the product analysis answers with the not-found error (404, no data found),
  as the detail and sensor-data operations do; it returns no mappings.
\<close>

theorem product_analysis_empty_not_found:
  assumes "db i = Some []"
  shows "get_lathe_product_analysis db i = Inl (HTTPException 404 (No_data_found i))"
  using assms by (simp add: get_lathe_product_analysis_def)

theorem product_analysis_empty_not_found_witness:
  "example_db 2 = Some [] \<and>
   get_lathe_product_analysis example_db 2 = Inl (HTTPException 404 (No_data_found 2))"
proof -
  have h: "example_db 2 = Some []" by (simp add: example_db_def)
  from h product_analysis_empty_not_found [of example_db 2] show ?thesis by simp
qed

text \<open>
  The claim as the specification states it (empty mappings, no error) fails for the
  database whose collection \<^verbatim>\<open>lathe_m1\<close> is empty.
\<close>

theorem product_analysis_empty_is_error:
  "get_lathe_product_analysis (Map.empty(1 \<mapsto> [])) 1 = Inl (HTTPException 404 (No_data_found 1))"
  by (simp add: get_lathe_product_analysis_def)

subsection \<open>Details and sensor data of a window\<close>

lemma lathe_details_Inr:
  assumes "mandatory_columns df"
  shows "lathe_details i df =
     Inr \<lparr>lathe_id = i, name = (''Lathe M'', i),
          health_score = py_round (pd_mean (map Health_score df)) 1,
          uptime = py_round (avg_uptime_of df) 1,
          status = status_of (pd_mean (map Health_score df)),
          air_temperature = py_round (pd_mean (map Air_temperature df)) 1,
          process_temperature = py_round (pd_mean (map Process_temperature df)) 1,
          rotational_speed = py_round (pd_mean (map Rotational_speed df)) 1,
          torque = py_round (pd_mean (map Torque df)) 1,
          tool_wear = py_round (pd_mean (map Tool_wear df)) 1,
          vibration = (if in_columns Vibration df
                       then Some (py_round (pd_mean (map Vibration df)) 1) else None),
          failure_count = (if in_columns Failure df then pd_sum (map Failure df) else 0),
          product_types = (if in_columns Type df then value_counts (map Type df) else Map.empty)\<rparr>"
  using assms
  by (simp add: mandatory_columns_def sensor_columns_def lathe_details_def col_mean_Inr Let_def)


lemma stats_entry_Cons:
  "\<exists>mn mx av. stats_entry (v # vs) = Inr [(''min'', mn), (''max'', mx), (''avg'', av)]"
  by (simp add: stats_entry_def py_avg_def)

lemma stats_loop_keys:
  "\<forall>p\<in>set sd. snd p \<noteq> [] \<Longrightarrow> \<exists>st. stats_loop sd = Inr st \<and> map fst st = map fst sd"
proof (induction sd)
  case Nil
  show ?case by simp
next
  case (Cons p sd)
  obtain key vs where p: "p = (key, vs)" by (cases p)
  with Cons.prems obtain v vs' where vs: "vs = v # vs'" by (cases vs) auto
  from stats_entry_Cons [of v vs'] obtain s where s: "stats_entry vs = Inr s"
    using vs by auto
  from Cons obtain st where st: "stats_loop sd = Inr st" "map fst st = map fst sd" by auto
  show ?case by (simp add: p s st)
qed

lemma sensor_data_of_Inr:
  assumes "sensor_columns df"
  shows "sensor_data_of df =
     Inr ([(''air_temperature'', tolist (map Air_temperature df)),
           (''process_temperature'', tolist (map Process_temperature df)),
           (''rotational_speed'', tolist (map Rotational_speed df)),
           (''torque'', tolist (map Torque df)),
           (''tool_wear'', tolist (map Tool_wear df))] @
          (if in_columns Vibration df then [(''vibration'', tolist (map Vibration df))] else []))"
  using assms by (simp add: sensor_columns_def sensor_data_of_def col_list_Inr Let_def)

lemma sensor_stats_keys:
  assumes "sensor_columns df"
  shows "\<exists>sd. sensor_stats i df = Inr sd \<and>
           map fst (sensor_data sd) =
             [''air_temperature'', ''process_temperature'', ''rotational_speed'', ''torque'',
              ''tool_wear''] @
             (if in_columns Vibration df then [''vibration''] else []) \<and>
           map fst (stats sd) = map fst (sensor_data sd)"
proof -
  let ?sd = "[(''air_temperature'', tolist (map Air_temperature df)),
           (''process_temperature'', tolist (map Process_temperature df)),
           (''rotational_speed'', tolist (map Rotational_speed df)),
           (''torque'', tolist (map Torque df)),
           (''tool_wear'', tolist (map Tool_wear df))] @
          (if in_columns Vibration df then [(''vibration'', tolist (map Vibration df))] else [])"
  from assms have ne: "df \<noteq> []"
    by (auto simp: sensor_columns_def dest: in_columns_nonempty)
  then have "\<forall>p\<in>set ?sd. snd p \<noteq> []" by (simp add: tolist_def)
  from stats_loop_keys [OF this] obtain st
    where st: "stats_loop ?sd = Inr st" "map fst st = map fst ?sd" by blast
  have "sensor_stats i df =
          Inr \<lparr>sd_lathe_id = i, sd_name = (''Lathe M'', i), sensor_data = ?sd, stats = st\<rparr>"
    by (simp only: sensor_stats_def sensor_data_of_Inr [OF assms] and_then_Inr st)
  with st show ?thesis by simp
qed

text \<open>
  Claim C4, as the code has it. For every non-empty window that holds the mandatory
  columns and in which no record has a vibration, the sensor-data operation leaves the
  key \<^verbatim>\<open>vibration\<close> out of both of its dictionaries, and the detail operation returns
  the field \<open>vibration\<close> as \<^verbatim>\<open>None\<close> (null), never as a number.
\<close>

theorem vibration_absent:
  assumes "mandatory_columns df" and "\<not> in_columns Vibration df"
  shows "(\<exists>sd. sensor_stats i df = Inr sd \<and>
            map fst (sensor_data sd) =
              [''air_temperature'', ''process_temperature'', ''rotational_speed'', ''torque'',
               ''tool_wear''] \<and>
            map fst (stats sd) =
              [''air_temperature'', ''process_temperature'', ''rotational_speed'', ''torque'',
               ''tool_wear'']) \<and>
         (\<exists>d. lathe_details i df = Inr d \<and> vibration d = None)"
proof -
  from assms(1) have "sensor_columns df" by (simp add: mandatory_columns_def)
  from sensor_stats_keys [OF this, of i] assms(2)
  have A: "\<exists>sd. sensor_stats i df = Inr sd \<and>
            map fst (sensor_data sd) =
              [''air_temperature'', ''process_temperature'', ''rotational_speed'', ''torque'',
               ''tool_wear''] \<and>
            map fst (stats sd) =
              [''air_temperature'', ''process_temperature'', ''rotational_speed'', ''torque'',
               ''tool_wear'']"
    by auto
  from assms have B: "\<exists>d. lathe_details i df = Inr d \<and> vibration d = None"
    by (simp add: lathe_details_Inr)
  from A B show ?thesis by blast
qed

theorem vibration_absent_witness:
  "mandatory_columns [example_row] \<and> \<not> in_columns Vibration [example_row] \<and>
   (\<exists>sd. sensor_stats 1 [example_row] = Inr sd \<and>
      map fst (sensor_data sd) =
        [''air_temperature'', ''process_temperature'', ''rotational_speed'', ''torque'',
         ''tool_wear''] \<and>
      map fst (stats sd) =
        [''air_temperature'', ''process_temperature'', ''rotational_speed'', ''torque'',
         ''tool_wear'']) \<and>
   (\<exists>d. lathe_details 1 [example_row] = Inr d \<and> vibration d = None)"
  using vibration_absent [OF example_row_columns(1,2), of 1] example_row_columns by simp

text \<open>
  The claim as the specification states it (the channel appears neither as zero nor as
  null) fails for the detail operation on a window of one document without vibration:
  the field \<open>vibration\<close> of the answer is \<^verbatim>\<open>None\<close>.
\<close>

theorem detail_vibration_is_null:
  "map_sum id vibration (get_lathe_details (Map.empty(1 \<mapsto> [example_row])) 1) = Inr None"
  by (simp add: get_lathe_details_def lathe_details_Inr example_row_columns Let_def)



text \<open>
  Claim C9. The summary and detail operations derive the status from the mean health
  score as computed, and return as \<open>health_score\<close> that mean rounded to one decimal;
  a window of mean 79.96 is answered with \<open>health_score = 80.0\<close> and status Warning.
\<close>

theorem status_from_unrounded_mean:
  "(mandatory_columns (window_of db i 100) \<longrightarrow>
      (\<exists>d. get_lathe_details db i = Inr d \<and>
           status d = status_of (pd_mean (map Health_score (window_of db i 100))) \<and>
           health_score d = py_round (pd_mean (map Health_score (window_of db i 100))) 1)) \<and>
   ((\<forall>j\<in>set [1, 2, 3, 4]. window_of db j 50 \<noteq> [] \<longrightarrow> in_columns Health_score (window_of db j 50)) \<longrightarrow>
      (\<exists>lathes. get_all_lathes db = Inr lathes \<and>
         (\<forall>s\<in>set lathes.
            status s = status_of (pd_mean (map Health_score (window_of db (lathe_id s) 50))) \<and>
            health_score s = py_round (pd_mean (map Health_score (window_of db (lathe_id s) 50))) 1))) \<and>
   pd_mean (map Health_score (window_of example_db 1 100)) = Fl 79.96 \<and>
   map_sum id (\<lambda>d. (health_score d, status d)) (get_lathe_details example_db 1) =
     Inr (Fl 80, ''Warning'') \<and>
   map_sum id (map (\<lambda>s. (health_score s, status s))) (get_all_lathes example_db) =
     Inr [(Fl 80, ''Warning'')]"
proof (intro conjI impI)
  assume m: "mandatory_columns (window_of db i 100)"
  then have "window_of db i 100 \<noteq> []"
    by (auto simp: mandatory_columns_def dest: in_columns_nonempty)
  from get_lathe_details_window [OF this] m
  show "\<exists>d. get_lathe_details db i = Inr d \<and>
           status d = status_of (pd_mean (map Health_score (window_of db i 100))) \<and>
           health_score d = py_round (pd_mean (map Health_score (window_of db i 100))) 1"
    by (simp add: lathe_details_Inr)
next
  assume "\<forall>j\<in>set [1, 2, 3, 4]. window_of db j 50 \<noteq> [] \<longrightarrow> in_columns Health_score (window_of db j 50)"
  from loop_closed [OF this, of "[]"]
  show "\<exists>lathes. get_all_lathes db = Inr lathes \<and>
         (\<forall>s\<in>set lathes.
            status s = status_of (pd_mean (map Health_score (window_of db (lathe_id s) 50))) \<and>
            health_score s = py_round (pd_mean (map Health_score (window_of db (lathe_id s) 50))) 1)"
    unfolding get_all_lathes_def by auto
next
  show "pd_mean (map Health_score (window_of example_db 1 100)) = Fl 79.96"
    by (simp add: window_of_example_db pd_mean_def example_row_def)
next
  have "window_of example_db 1 100 \<noteq> []" by (simp add: window_of_example_db)
  from get_lathe_details_window [OF this]
  show "map_sum id (\<lambda>d. (health_score d, status d)) (get_lathe_details example_db 1) =
     Inr (Fl 80, ''Warning'')"
    by (simp add: window_of_example_db lathe_details_Inr example_row_columns)
       (simp add: example_row_def pd_mean_def round_half_even_def status_of_def)
next
  have "\<forall>j\<in>set [1, 2, 3, 4]. window_of example_db j 50 \<noteq> [] \<longrightarrow>
          in_columns Health_score (window_of example_db j 50)"
    by (simp add: window_of_example_db example_row_columns [unfolded mandatory_columns_def])
  from loop_closed [OF this, of "[]"]
  show "map_sum id (map (\<lambda>s. (health_score s, status s))) (get_all_lathes example_db) =
     Inr [(Fl 80, ''Warning'')]"
    unfolding get_all_lathes_def
    by (simp add: window_of_example_db)
       (simp add: example_row_def pd_mean_def round_half_even_def status_of_def)
qed

theorem status_from_unrounded_mean_witness:
  "mandatory_columns (window_of example_db 1 100) \<and>
   (\<exists>d. get_lathe_details example_db 1 = Inr d \<and> status d = ''Warning'' \<and> health_score d = Fl 80) \<and>
   (\<exists>lathes. get_all_lathes example_db = Inr lathes \<and>
      map status lathes = [''Warning''] \<and> map health_score lathes = [Fl 80])"
proof -
  note T = status_from_unrounded_mean [of example_db 1]
  have m: "mandatory_columns (window_of example_db 1 100)"
    by (simp add: window_of_example_db example_row_columns)
  have h: "\<forall>j\<in>set [1, 2, 3, 4]. window_of example_db j 50 \<noteq> [] \<longrightarrow>
          in_columns Health_score (window_of example_db j 50)"
    by (simp add: window_of_example_db example_row_columns [unfolded mandatory_columns_def])
  from T [THEN conjunct1] m obtain d where d: "get_lathe_details example_db 1 = Inr d"
    by blast
  from T [THEN conjunct2, THEN conjunct1] h obtain lathes
    where l: "get_all_lathes example_db = Inr lathes"
    by blast
  from T [THEN conjunct2, THEN conjunct2, THEN conjunct2, THEN conjunct1] d
  have 1: "status d = ''Warning'' \<and> health_score d = Fl 80" by simp
  from T [THEN conjunct2, THEN conjunct2, THEN conjunct2, THEN conjunct2] l
  have "map (\<lambda>s. (health_score s, status s)) lathes = [(Fl 80, ''Warning'')]" by simp
  then have 2: "map status lathes = [''Warning''] \<and> map health_score lathes = [Fl 80]"
    by (cases lathes) auto
  from m d l 1 2 show ?thesis by simp
qed

subsection \<open>The order of the records\<close>

text \<open>
  Two windows hold the same records in another order when their multisets are equal.
  The summary and the details of a window do not depend on the order, and neither do the
  statistics of the sensor data when every record fills the channels the window has.
\<close>

lemma mset_present:
  "mset (present cs) = image_mset the (filter_mset (\<lambda>c. c \<noteq> None) (mset cs))"
  by (induction cs rule: present.induct) auto

lemma present_perm: "mset cs = mset cs' \<Longrightarrow> mset (present cs) = mset (present cs')"
  by (simp add: mset_present)

lemma pd_mean_alt:
  "pd_mean cs = (if present cs = [] then NaN
                 else Fl (sum_mset (mset (present cs)) / real (size (mset (present cs)))))"
  by (cases "present cs") (simp_all add: pd_mean_def sum_mset_sum_list)

lemma pd_mean_perm:
  assumes "mset cs = mset cs'"
  shows "pd_mean cs = pd_mean cs'"
proof -
  from present_perm [OF assms] have m: "mset (present cs) = mset (present cs')" .
  then have "present cs = [] \<longleftrightarrow> present cs' = []"
    by (metis mset_zero_iff)
  with m show ?thesis by (simp add: pd_mean_alt)
qed

lemma map_perm: "mset df = mset df' \<Longrightarrow> mset (map f df) = mset (map f df')"
  by (metis mset_map)

lemma in_columns_perm: "mset df = mset df' \<Longrightarrow> in_columns f df = in_columns f df'"
  by (simp add: in_columns_iff) (metis set_mset_mset)

lemma col_mean_perm: "mset df = mset df' \<Longrightarrow> col_mean key f df = col_mean key f df'"
  using in_columns_perm [of df df' f] pd_mean_perm [OF map_perm, of df df' f]
  by (cases "in_columns f df") (simp_all add: col_mean_Inr col_mean_Inl)

lemma avg_uptime_perm: "mset df = mset df' \<Longrightarrow> avg_uptime_of df = avg_uptime_of df'"
  using in_columns_perm [of df df' Uptime] pd_mean_perm [OF map_perm, of df df' Uptime]
  by (simp add: avg_uptime_of_def)

lemma value_counts_perm:
  assumes "mset cs = mset cs'"
  shows "value_counts cs = value_counts cs'"
proof
  fix k
  from present_perm [OF assms] have "count_list (present cs) k = count_list (present cs') k"
    by (metis count_mset)
  then show "value_counts cs k = value_counts cs' k" by (simp add: value_counts_def)
qed

lemma pd_sum_perm: "mset cs = mset cs' \<Longrightarrow> pd_sum cs = pd_sum cs'"
  unfolding pd_sum_def by (metis present_perm sum_mset_sum_list)

lemma lathe_summary_perm:
  assumes "mset df = mset df'"
  shows "lathe_summary i df = lathe_summary i df'"
  using in_columns_perm [OF assms, of Health_score] pd_mean_perm [OF map_perm [OF assms], of Health_score]
    avg_uptime_perm [OF assms]
  by (cases "in_columns Health_score df") (simp_all add: lathe_summary_Inr lathe_summary_Inl)

lemma lathe_details_perm:
  assumes "mset df = mset df'"
  shows "lathe_details i df = lathe_details i df'"
  unfolding lathe_details_def
  by (simp only: col_mean_perm [OF assms] avg_uptime_perm [OF assms] in_columns_perm [OF assms]
      value_counts_perm [OF map_perm [OF assms]] pd_sum_perm [OF map_perm [OF assms]]
      pd_mean_perm [OF map_perm [OF assms]])

lemma foldl_min_Fl:
  "foldl (\<lambda>m x. if py_lt x m then x else m) (Fl a) (map Fl xs) = Fl (fold min xs a)"
  by (induction xs arbitrary: a) (simp_all add: min_def)

lemma foldl_max_Fl:
  "foldl (\<lambda>m x. if py_gt x m then x else m) (Fl a) (map Fl xs) = Fl (fold max xs a)"
  by (induction xs arbitrary: a) (simp_all add: max_def)

lemma py_min_Fl: "xs \<noteq> [] \<Longrightarrow> py_min (map Fl xs) = Inr (Fl (Min (set xs)))"
  by (cases xs) (simp_all add: foldl_min_Fl Min.set_eq_fold [symmetric])

lemma py_max_Fl: "xs \<noteq> [] \<Longrightarrow> py_max (map Fl xs) = Inr (Fl (Max (set xs)))"
  by (cases xs) (simp_all add: foldl_max_Fl Max.set_eq_fold [symmetric])

lemma py_sum_Fl: "foldl py_add (Fl a) (map Fl xs) = Fl (a + sum_list xs)"
  by (induction xs arbitrary: a) (simp_all add: add.assoc)

lemma py_avg_Fl: "xs \<noteq> [] \<Longrightarrow> py_avg (map Fl xs) = Inr (Fl (sum_list xs / real (length xs)))"
  by (simp add: py_avg_def py_sum_def py_sum_Fl)

lemma stats_entry_Fl:
  "xs \<noteq> [] \<Longrightarrow>
     stats_entry (map Fl xs) =
       Inr [(''min'', py_round (Fl (Min (set xs))) 2), (''max'', py_round (Fl (Max (set xs))) 2),
            (''avg'', py_round (Fl (sum_mset (mset xs) / real (size (mset xs)))) 2)]"
  by (simp add: stats_entry_def py_min_Fl py_max_Fl py_avg_Fl sum_mset_sum_list del: py_round.simps)

lemma stats_entry_perm:
  assumes "mset xs = mset ys"
  shows "stats_entry (map Fl xs) = stats_entry (map Fl ys)"
proof (cases "xs = []")
  case True
  with assms show ?thesis by simp
next
  case False
  with assms have "ys \<noteq> []" by auto
  moreover from assms have "set xs = set ys" by (metis set_mset_mset)
  ultimately show ?thesis using False assms by (simp add: stats_entry_Fl del: py_round.simps)
qed

lemma tolist_full:
  "\<forall>r\<in>set df. f r \<noteq> None \<Longrightarrow> tolist (map f df) = map Fl (map (\<lambda>r. the (f r)) df)"
  by (induction df) (auto simp: tolist_def)

lemma stats_entry_column_perm:
  assumes "mset df = mset df'" and "\<forall>r\<in>set df. f r \<noteq> None"
  shows "stats_entry (tolist (map f df)) = stats_entry (tolist (map f df'))"
proof -
  from assms have "\<forall>r\<in>set df'. f r \<noteq> None" by (metis set_mset_mset)
  then have "tolist (map f df') = map Fl (map (\<lambda>r. the (f r)) df')" by (rule tolist_full)
  moreover from assms(2) have "tolist (map f df) = map Fl (map (\<lambda>r. the (f r)) df)"
    by (rule tolist_full)
  ultimately show ?thesis
    by (simp only: stats_entry_perm [OF map_perm [OF assms(1)]])
qed

lemma sensor_stats_perm:
  assumes p: "mset df = mset df'" and ne: "df \<noteq> []"
    and full: "full_column Air_temperature df" "full_column Process_temperature df"
      "full_column Rotational_speed df" "full_column Torque df" "full_column Tool_wear df"
    and vib: "full_column Vibration df \<or> \<not> in_columns Vibration df"
  shows "map_sum id stats (sensor_stats i df) = map_sum id stats (sensor_stats i df')"
proof -
  from full have f: "\<forall>r\<in>set df. Air_temperature r \<noteq> None"
    "\<forall>r\<in>set df. Process_temperature r \<noteq> None" "\<forall>r\<in>set df. Rotational_speed r \<noteq> None"
    "\<forall>r\<in>set df. Torque r \<noteq> None" "\<forall>r\<in>set df. Tool_wear r \<noteq> None"
    by (simp_all add: full_column_def list_all_iff)
  with ne have c: "sensor_columns df"
    unfolding sensor_columns_def in_columns_iff by (cases df) auto
  with p have c': "sensor_columns df'"
    by (simp add: sensor_columns_def in_columns_perm [of df df'])
  note e = stats_entry_column_perm [OF p]
  obtain a where a: "stats_entry (tolist (map Air_temperature df)) = Inr a"
    using stats_entry_Cons ne by (cases df) (auto simp: tolist_def)
  obtain b where b: "stats_entry (tolist (map Process_temperature df)) = Inr b"
    using stats_entry_Cons ne by (cases df) (auto simp: tolist_def)
  obtain s where s: "stats_entry (tolist (map Rotational_speed df)) = Inr s"
    using stats_entry_Cons ne by (cases df) (auto simp: tolist_def)
  obtain t where t: "stats_entry (tolist (map Torque df)) = Inr t"
    using stats_entry_Cons ne by (cases df) (auto simp: tolist_def)
  obtain w where w: "stats_entry (tolist (map Tool_wear df)) = Inr w"
    using stats_entry_Cons ne by (cases df) (auto simp: tolist_def)
  obtain v where v: "stats_entry (tolist (map Vibration df)) = Inr v"
    using stats_entry_Cons ne by (cases df) (auto simp: tolist_def)
  note a' = a [unfolded e [of Air_temperature, OF f(1)]]
    and b' = b [unfolded e [of Process_temperature, OF f(2)]]
    and s' = s [unfolded e [of Rotational_speed, OF f(3)]]
    and t' = t [unfolded e [of Torque, OF f(4)]]
    and w' = w [unfolded e [of Tool_wear, OF f(5)]]
  show ?thesis
  proof (cases "in_columns Vibration df")
    case False
    with p have "\<not> in_columns Vibration df'" by (simp add: in_columns_perm [of df df'])
    with False show ?thesis
      by (simp add: sensor_stats_def sensor_data_of_Inr c c' a b s t w a' b' s' t' w')
  next
    case True
    with vib have "\<forall>r\<in>set df. Vibration r \<noteq> None" by (simp add: full_column_def list_all_iff)
    note v' = v [unfolded e [of Vibration, OF this]]
    from True p have "in_columns Vibration df'" by (simp add: in_columns_perm [of df df'])
    with True show ?thesis
      by (simp add: sensor_stats_def sensor_data_of_Inr c c' a b s t w v a' b' s' t' w' v')
  qed
qed

text \<open>
  Claim C7 says that the aggregation of a window gives the same mean, min and max of
  every channel, the same mean health score and the same status for every order of the
  records. The code does not for the optional channel: with two documents, one without
  and one with a vibration, the sensor-data operation answers \<open>NaN\<close> for the least and
  greatest vibration when the document without it comes first, and 5 when it comes
  second, since Python's \<^verbatim>\<open>min\<close> and \<^verbatim>\<open>max\<close> keep a leading \<open>NaN\<close> and skip a
  later one.
\<close>

theorem sensor_stats_depends_on_order:
  "map_sum id (\<lambda>sd. map_of (stats sd) ''vibration'')
      (get_lathe_sensor_data (Map.empty(1 \<mapsto> [example_row, example_row\<lparr>Vibration := Some 5\<rparr>])) 1) =
     Inr (Some [(''min'', NaN), (''max'', NaN), (''avg'', NaN)]) \<and>
   map_sum id (\<lambda>sd. map_of (stats sd) ''vibration'')
      (get_lathe_sensor_data (Map.empty(1 \<mapsto> [example_row\<lparr>Vibration := Some 5\<rparr>, example_row])) 1) =
     Inr (Some [(''min'', Fl 5), (''max'', Fl 5), (''avg'', NaN)])"
  by (simp add: get_lathe_sensor_data_def sensor_stats_def sensor_data_of_def col_list_def
      column_def in_columns_def example_row_def tolist_def stats_entry_def py_avg_def py_sum_def
      round_half_even_def del: not_None_eq)

subsection \<open>The product breakdown\<close>

lemma pd_unique_fold_set:
  "set (foldl (\<lambda>seen c. if c \<in> set seen then seen else seen @ [c]) acc cs) = set acc \<union> set cs"
  by (induction cs arbitrary: acc) auto

lemma pd_unique_fold_distinct:
  "distinct acc \<Longrightarrow> distinct (foldl (\<lambda>seen c. if c \<in> set seen then seen else seen @ [c]) acc cs)"
  by (induction cs arbitrary: acc) auto

lemma set_pd_unique [simp]: "set (pd_unique cs) = set cs"
  by (simp add: pd_unique_def pd_unique_fold_set)

lemma distinct_pd_unique [simp]: "distinct (pd_unique cs)"
  by (simp add: pd_unique_def pd_unique_fold_distinct)
















subsection \<open>The health score of the generator\<close>

lemma clip_bounds: "0 \<le> clip 0 1 x \<and> clip 0 1 x \<le> 1"
  by (simp add: clip_def)

text \<open>
  Claim C8. For every record, with non-zero nominal values, the health score that
  \<^verbatim>\<open>enrich\<close> computes is 100 times the sum of four sub-scores weighted 0.2, 0.25,
  0.25 and 0.3: the temperature deviation from 300 over 10, the speed over its nominal,
  the torque over its nominal and one minus the tool wear over its greatest value, each
  clipped to [0, 1]. So the score lies in [0, 100].
\<close>

theorem health_score_formula:
  assumes "speed_mean \<noteq> 0" and "torque_mean \<noteq> 0" and "wear_max \<noteq> 0"
  shows
    "(let ht = 1 - clip 0 1 (\<bar>d_Air_temperature d - 300\<bar> / 10);
          hs = clip 0 1 (d_Rotational_speed d / speed_mean);
          hq = clip 0 1 (d_Torque d / torque_mean);
          hw = clip 0 1 (1 - d_Tool_wear d / wear_max);
          score = 100 * (0.2 * ht + 0.25 * hs + 0.25 * hq + 0.3 * hw)
      in health_score_of (make_nominal speed_mean torque_mean wear_max) d = Some score \<and>
         ht = clip 0 1 (1 - \<bar>d_Air_temperature d - 300\<bar> / 10) \<and>
         0 \<le> ht \<and> ht \<le> 1 \<and> 0 \<le> hs \<and> hs \<le> 1 \<and> 0 \<le> hq \<and> hq \<le> 1 \<and> 0 \<le> hw \<and> hw \<le> 1 \<and>
         0 \<le> score \<and> score \<le> 100)"
proof -
  define ht where "ht = 1 - clip 0 1 (\<bar>d_Air_temperature d - 300\<bar> / 10)"
  define hs where "hs = clip 0 1 (d_Rotational_speed d / speed_mean)"
  define hq where "hq = clip 0 1 (d_Torque d / torque_mean)"
  define hw where "hw = clip 0 1 (1 - d_Tool_wear d / wear_max)"
  have b: "0 \<le> ht" "ht \<le> 1" "0 \<le> hs" "hs \<le> 1" "0 \<le> hq" "hq \<le> 1" "0 \<le> hw" "hw \<le> 1"
    using clip_bounds [of "\<bar>d_Air_temperature d - 300\<bar> / 10"]
      clip_bounds [of "d_Rotational_speed d / speed_mean"]
      clip_bounds [of "d_Torque d / torque_mean"]
      clip_bounds [of "1 - d_Tool_wear d / wear_max"]
    by (simp_all add: ht_def hs_def hq_def hw_def)
  have e: "ht = clip 0 1 (1 - \<bar>d_Air_temperature d - 300\<bar> / 10)"
    by (simp add: ht_def clip_def)
  have s: "health_score_of (make_nominal speed_mean torque_mean wear_max) d =
             Some (100 * (0.2 * ht + 0.25 * hs + 0.25 * hq + 0.3 * hw))"
    using assms
    by (simp add: health_score_of_def h_temp_def h_speed_def h_torque_def h_wear_def np_div_def
        make_nominal_def weights_temp_def weights_speed_def weights_torque_def weights_wear_def
        ht_def hs_def hq_def hw_def)
  have r: "0 \<le> 100 * (0.2 * ht + 0.25 * hs + 0.25 * hq + 0.3 * hw)"
    "100 * (0.2 * ht + 0.25 * hs + 0.25 * hq + 0.3 * hw) \<le> 100"
    using b by simp_all
  from s e b r show ?thesis
    unfolding Let_def ht_def [symmetric] hs_def [symmetric] hq_def [symmetric] hw_def [symmetric]
    by (intro conjI)
qed

theorem health_score_formula_witness:
  "health_score_of (make_nominal 1500 40 200)
     \<lparr>d_Air_temperature = 303, d_Rotational_speed = 1400, d_Torque = 50, d_Tool_wear = 100\<rparr> =
     Some (232 / 3)"
  using health_score_formula [of 1500 40 200
      "\<lparr>d_Air_temperature = 303, d_Rotational_speed = 1400, d_Torque = 50, d_Tool_wear = 100\<rparr>"]
  by (simp add: clip_def Let_def)

end
